theory Spec2Isabelle
  imports Complex_Main "HOL-Library.Sublist" "HOL-Library.Signed_Division" "HOL-Library.AList"
begin

section \<open>Go strings and the library functions the entity uses\<close>

text \<open>
  A Go string is a sequence of bytes; \<open>len\<close> counts bytes. It is modelled by
  \<^typ>\<open>string\<close>, whose characters are bytes. The library functions that look at runes
  (\<open>strings.TrimSpace\<close>, the \<open>regexp\<close> matcher) decode UTF-8; here they are written on
  the encoded bytes, which is the same thing for every byte sequence: an ASCII byte and a
  UTF-8 lead byte always start a rune, and a byte sequence that is no valid encoding
  decodes to \<open>U+FFFD\<close>, which is neither white space nor in any character class below.
\<close>

type_synonym Time = int

text \<open>\<open>unicode.IsSpace\<close>: the UTF-8 encodings of the runes with the White_Space property.\<close>

definition spaceRunes :: "string list" where
  "spaceRunes =
     [[CHR 0x09], [CHR 0x0A], [CHR 0x0B], [CHR 0x0C], [CHR 0x0D], [CHR 0x20],
      [CHR 0xC2, CHR 0x85], [CHR 0xC2, CHR 0xA0],
      [CHR 0xE1, CHR 0x9A, CHR 0x80],
      [CHR 0xE2, CHR 0x80, CHR 0x80], [CHR 0xE2, CHR 0x80, CHR 0x81],
      [CHR 0xE2, CHR 0x80, CHR 0x82], [CHR 0xE2, CHR 0x80, CHR 0x83],
      [CHR 0xE2, CHR 0x80, CHR 0x84], [CHR 0xE2, CHR 0x80, CHR 0x85],
      [CHR 0xE2, CHR 0x80, CHR 0x86], [CHR 0xE2, CHR 0x80, CHR 0x87],
      [CHR 0xE2, CHR 0x80, CHR 0x88], [CHR 0xE2, CHR 0x80, CHR 0x89],
      [CHR 0xE2, CHR 0x80, CHR 0x8A],
      [CHR 0xE2, CHR 0x80, CHR 0xA8], [CHR 0xE2, CHR 0x80, CHR 0xA9],
      [CHR 0xE2, CHR 0x80, CHR 0xAF],
      [CHR 0xE2, CHR 0x81, CHR 0x9F],
      [CHR 0xE3, CHR 0x80, CHR 0x80]]"

text \<open>The width in bytes of the white-space rune a string starts (ends) with, 0 if none.\<close>

definition leadingSpace :: "string \<Rightarrow> nat" where
  "leadingSpace s = (case find (\<lambda>t. prefix t s) spaceRunes of None \<Rightarrow> 0 | Some t \<Rightarrow> length t)"

definition trailingSpace :: "string \<Rightarrow> nat" where
  "trailingSpace s = (case find (\<lambda>t. suffix t s) spaceRunes of None \<Rightarrow> 0 | Some t \<Rightarrow> length t)"

lemma leadingSpace_le: "leadingSpace s \<le> length s"
  by (auto simp: leadingSpace_def prefix_length_le split: option.splits dest!: find_Some_iff [THEN iffD1])

lemma trailingSpace_le: "trailingSpace s \<le> length s"
  by (auto simp: trailingSpace_def suffix_length_le split: option.splits dest!: find_Some_iff [THEN iffD1])

text \<open>\<open>strings.TrimLeftFunc(s, unicode.IsSpace)\<close> and \<open>strings.TrimRightFunc\<close>.\<close>

function TrimLeftSpace :: "string \<Rightarrow> string" where
  "TrimLeftSpace s = (if leadingSpace s = 0 then s else TrimLeftSpace (drop (leadingSpace s) s))"
  by pat_completeness auto
termination
proof (relation "measure length")
  show "wf (measure length)" by simp
next
  fix s :: string
  assume "leadingSpace s \<noteq> 0"
  moreover have "leadingSpace s \<le> length s" by (rule leadingSpace_le)
  ultimately show "(drop (leadingSpace s) s, s) \<in> measure length" by simp
qed

function TrimRightSpace :: "string \<Rightarrow> string" where
  "TrimRightSpace s =
     (if trailingSpace s = 0 then s else TrimRightSpace (take (length s - trailingSpace s) s))"
  by pat_completeness auto
termination
proof (relation "measure length")
  show "wf (measure length)" by simp
next
  fix s :: string
  assume "trailingSpace s \<noteq> 0"
  moreover have "trailingSpace s \<le> length s" by (rule trailingSpace_le)
  ultimately show "(take (length s - trailingSpace s) s, s) \<in> measure length" by simp
qed

declare TrimLeftSpace.simps [simp del] TrimRightSpace.simps [simp del]

text \<open>\<open>strings.TrimSpace\<close>.\<close>

definition TrimSpace :: "string \<Rightarrow> string" where
  "TrimSpace s = TrimRightSpace (TrimLeftSpace s)"

text \<open>
  \<open>strings.ToLower\<close>: a string of ASCII bytes only is lowered byte by byte
  (\<open>c += 'a' - 'A'\<close> for \<open>'A' <= c <= 'Z'\<close>); any other string goes through
  \<open>strings.Map(unicode.ToLower, s)\<close>, whose Unicode case table is the library's and is
  the parameter \<open>unicodeLower\<close> here.
\<close>

definition isASCII :: "char \<Rightarrow> bool" where
  "isASCII c = ((of_char c :: nat) < 0x80)"

definition asciiLower :: "char \<Rightarrow> char" where
  "asciiLower c =
     (if (0x41::nat) \<le> of_char c \<and> (of_char c :: nat) \<le> 0x5A then char_of (of_char c + 0x20 :: nat) else c)"

definition asciiUpper :: "char \<Rightarrow> char" where
  "asciiUpper c =
     (if (0x61::nat) \<le> of_char c \<and> (of_char c :: nat) \<le> 0x7A then char_of (of_char c - 0x20 :: nat) else c)"

definition ToLower :: "(string \<Rightarrow> string) \<Rightarrow> string \<Rightarrow> string" where
  "ToLower unicodeLower s = (if list_all isASCII s then map asciiLower s else unicodeLower s)"

section \<open>The entity: \<open>internal/domain/entities/users.go\<close>\<close>

datatype error =
    ErrEmailEmpty            \<comment> \<open>email can't be empty\<close>
  | ErrInvalidEmail          \<comment> \<open>invalid email\<close>
  | ErrEmailTooLong          \<comment> \<open>email too long\<close>
  | ErrEmptyName             \<comment> \<open>empty name\<close>
  | ErrNameTooShort          \<comment> \<open>brother nobody has such a short name\<close>
  | ErrNameTooLong           \<comment> \<open>brother nobody has such a long name\<close>
  | ErrOffensiveName         \<comment> \<open>offensive name non approprie\<close>
  | ErrInvalidNameChars      \<comment> \<open>nom contient des caracteres invalides\<close>
  | ErrPasswordEmpty         \<comment> \<open>mot de passe ne peut pas etre vide\<close>
  | ErrPasswordTooShort      \<comment> \<open>mot de passe trop court (min 6 caracteres)\<close>
  | ErrPasswordTooLong       \<comment> \<open>mot de passe trop long (max 128 caracteres)\<close>
  | ErrEmailCheckFailed      \<comment> \<open>erreur lors de la verification de l'email\<close>
  | ErrUserAlreadyExists     \<comment> \<open>un utilisateur avec cet email existe deja\<close>
  | ErrPasswordProcessing    \<comment> \<open>erreur lors du traitement du mot de passe\<close>
  | ErrUserCreation          \<comment> \<open>erreur lors de la creation de l'utilisateur\<close>
  | ErrUserNotFound          \<comment> \<open>utilisateur non trouve\<close>
  | ErrEmailAlreadyUsed      \<comment> \<open>cet email est deja utilise\<close>
  | ErrUpdateFailed          \<comment> \<open>erreur lors de la mise a jour\<close>
  | ErrDeleteFailed          \<comment> \<open>erreur lors de la suppression\<close>
  | ErrListFailed            \<comment> \<open>erreur lors de la recuperation des utilisateurs\<close>
  | ErrCountFailed           \<comment> \<open>erreur lors du comptage des utilisateurs\<close>
  | ErrStoreNotFound         \<comment> \<open>user not found (the mock repository)\<close>
  | ErrStoreEmailUsed        \<comment> \<open>email deja utilise (the mock repository)\<close>
  | ErrExternal string       \<comment> \<open>any error of an external collaborator\<close>

record User =
  ID :: int
  Email :: string
  Name :: string
  Password :: string
  Created :: Time
  Updated :: Time

definition validateEmail :: "string \<Rightarrow> error option" where
  "validateEmail email0 =
     (let email = TrimSpace email0 in
      if email = [] then Some ErrEmailEmpty
      else if \<not> sublist ''@'' email then Some ErrInvalidEmail
      else if length email > 255 then Some ErrEmailTooLong
      else None)"

text \<open>
  \<open>offensiveNameRegex = (?i)(fuck|shit|damn|idiot|stupid|hitler|cunt)\<close>, unanchored.
  Under \<open>(?i)\<close> a letter of the pattern matches itself, its upper case and the other
  runes of its simple case-folding orbit: \<open>U+212A\<close> (Kelvin sign) for \<open>k\<close> and
  \<open>U+017F\<close> (long s) for \<open>s\<close>.
\<close>

definition offensiveWords :: "string list" where
  "offensiveWords = [''fuck'', ''shit'', ''damn'', ''idiot'', ''stupid'', ''hitler'', ''cunt'']"

definition foldOrbit :: "char \<Rightarrow> string list" where
  "foldOrbit c =
     [[c], [asciiUpper c]] @
     (if c = CHR ''k'' then [[CHR 0xE2, CHR 0x84, CHR 0xAA]]
      else if c = CHR ''s'' then [[CHR 0xC5, CHR 0xBF]]
      else [])"

fun matchWordAt :: "string \<Rightarrow> string \<Rightarrow> bool" where
  "matchWordAt [] s = True"
| "matchWordAt (p # ps) s =
     list_ex (\<lambda>t. prefix t s \<and> matchWordAt ps (drop (length t) s)) (foldOrbit p)"

fun offensiveNameRegex_MatchString :: "string \<Rightarrow> bool" where
  "offensiveNameRegex_MatchString [] = False"
| "offensiveNameRegex_MatchString (c # cs) =
     (list_ex (\<lambda>w. matchWordAt w (c # cs)) offensiveWords \<or> offensiveNameRegex_MatchString cs)"

text \<open>
  \<open>validNameRegex = ^[a-zA-Z\<dots>\s\-'.]+$\<close>, where the range written \<open>\<dots>\<close> is
  \<open>U+00C0\<close> to \<open>U+00FF\<close> (in UTF-8 the byte \<open>0xC3\<close> followed by \<open>0x80\<close> to \<open>0xBF\<close>)
  and \<open>\s\<close> is \<open>[\t\n\f\r ]\<close>.
\<close>

definition nameClassASCII :: "char \<Rightarrow> bool" where
  "nameClassASCII c =
     (let n = (of_char c :: nat) in
      (0x61 \<le> n \<and> n \<le> 0x7A) \<or> (0x41 \<le> n \<and> n \<le> 0x5A) \<or>
      c = CHR 0x09 \<or> c = CHR 0x0A \<or> c = CHR 0x0C \<or> c = CHR 0x0D \<or> c = CHR 0x20 \<or>
      c = CHR ''-'' \<or> c = CHR 0x27 \<or> c = CHR ''.'')"

fun nameClassOnly :: "string \<Rightarrow> bool" where
  "nameClassOnly [] = True"
| "nameClassOnly (c # cs) =
     (if nameClassASCII c then nameClassOnly cs
      else if c = CHR 0xC3 then
        (case cs of
           [] \<Rightarrow> False
         | d # ds \<Rightarrow> (0x80::nat) \<le> of_char d \<and> (of_char d :: nat) \<le> 0xBF \<and> nameClassOnly ds)
      else False)"

definition validNameRegex_MatchString :: "string \<Rightarrow> bool" where
  "validNameRegex_MatchString s = (s \<noteq> [] \<and> nameClassOnly s)"

definition validateName :: "string \<Rightarrow> error option" where
  "validateName name =
     (let trimmedName = TrimSpace name in
      if trimmedName = [] then Some ErrEmptyName
      else if length trimmedName < 2 then Some ErrNameTooShort
      else if length trimmedName > 100 then Some ErrNameTooLong
      else if offensiveNameRegex_MatchString trimmedName then Some ErrOffensiveName
      else if \<not> validNameRegex_MatchString trimmedName then Some ErrInvalidNameChars
      else None)"

definition validatePassword :: "string \<Rightarrow> error option" where
  "validatePassword password =
     (if password = [] then Some ErrPasswordEmpty
      else if length password < 6 then Some ErrPasswordTooShort
      else if length password > 128 then Some ErrPasswordTooLong
      else None)"

text \<open>
  \<open>NewUser\<close>. The parameter \<open>now\<close> is the value \<open>time.Now()\<close> returns; \<open>ID\<close> keeps its
  zero value.
\<close>

definition NewUser :: "(string \<Rightarrow> string) \<Rightarrow> Time \<Rightarrow> string \<Rightarrow> string \<Rightarrow> string \<Rightarrow> error + User" where
  "NewUser unicodeLower now email name password =
     (case validateEmail email of Some err \<Rightarrow> Inl err | None \<Rightarrow>
      case validateName name of Some err \<Rightarrow> Inl err | None \<Rightarrow>
      case validatePassword password of Some err \<Rightarrow> Inl err | None \<Rightarrow>
        Inr \<lparr>ID = 0,
             Email = ToLower unicodeLower (TrimSpace email),
             Name = TrimSpace name,
             Password = password,
             Created = now,
             Updated = now\<rparr>)"

text \<open>
  The methods with a pointer receiver return the error and the receiver as the call
  leaves it.
\<close>

definition UpdateUserProfile ::
    "(string \<Rightarrow> string) \<Rightarrow> Time \<Rightarrow> string \<Rightarrow> string \<Rightarrow> User \<Rightarrow> error option \<times> User" where
  "UpdateUserProfile unicodeLower now name email u =
     (case validateName name of Some err \<Rightarrow> (Some err, u) | None \<Rightarrow>
      case validateEmail email of Some err \<Rightarrow> (Some err, u) | None \<Rightarrow>
        (None, u\<lparr>Name := TrimSpace name,
                  Email := ToLower unicodeLower (TrimSpace email),
                  Updated := now\<rparr>))"

definition ChangePassword :: "Time \<Rightarrow> string \<Rightarrow> User \<Rightarrow> error option \<times> User" where
  "ChangePassword now newPassword u =
     (case validatePassword newPassword of Some err \<Rightarrow> (Some err, u) | None \<Rightarrow>
        (None, u\<lparr>Password := newPassword, Updated := now\<rparr>))"

section \<open>Pointers\<close>

text \<open>
  The repositories and the use cases pass \<open>*User\<close> around, and what a caller can do to
  the repository through such a pointer is what the copies are about. Memory is the list
  of the objects allocated so far and a pointer is an index into it; \<open>new\<close> is the
  allocation of a fresh object (\<open>userCopy := *user; &userCopy\<close>). A pointer of the
  program is never nil where it is followed and always points to an allocated object, so
  the index is below the length of the list wherever it is read.
\<close>

type_synonym addr = nat
type_synonym 'u heap = "'u list"

definition new :: "'u \<Rightarrow> 'u heap \<Rightarrow> addr \<times> 'u heap" where
  "new v h = (length h, h @ [v])"

section \<open>Machine integers\<close>

text \<open>
  Go's \<open>int\<close> (64 bits): a value is an integer of the signed 64-bit range and every
  operation wraps around; \<open>/\<close> truncates towards zero.
\<close>

definition wrap64 :: "int \<Rightarrow> int" where
  "wrap64 x = signed_take_bit 63 x"

definition add64 :: "int \<Rightarrow> int \<Rightarrow> int" where
  "add64 a b = wrap64 (a + b)"

definition sub64 :: "int \<Rightarrow> int \<Rightarrow> int" where
  "sub64 a b = wrap64 (a - b)"

definition mul64 :: "int \<Rightarrow> int \<Rightarrow> int" where
  "mul64 a b = wrap64 (a * b)"

definition div64 :: "int \<Rightarrow> int \<Rightarrow> int" where
  "div64 a b = wrap64 (a sdiv b)"

section \<open>The mock repository\<close>

text \<open>
  \<open>MockUserRepository\<close>: the struct of \<open>repositories/repo.md\<close> (the mutex left out); the
  demonstration file's struct of the same name has the field \<open>users\<close> only, and its
  methods \<open>GetByID\<close> and \<open>List\<close> read no other field. A Go map is an association list
  here, and the order of the list stands for the order in which \<open>range\<close> happens to visit
  the map.
\<close>

record MockUserRepository =
  users :: "(int \<times> addr) list"
  emails :: "(string \<times> addr) list"
  nextID :: int

definition NewMockUserRepository :: MockUserRepository where
  "NewMockUserRepository = \<lparr>users = [], emails = [], nextID = 1\<rparr>"

definition Mock_GetByID ::
    "int \<Rightarrow> 'u heap \<times> MockUserRepository \<Rightarrow> (error + addr) \<times> ('u heap \<times> MockUserRepository)" where
  "Mock_GetByID uid = (\<lambda>(h, r).
     case map_of (users r) uid of
       None \<Rightarrow> (Inl ErrStoreNotFound, (h, r))
     | Some user \<Rightarrow> (let (userCopy, h') = new (h ! user) h in (Inr userCopy, (h', r))))"

fun Mock_List_loop :: "(int \<times> addr) list \<Rightarrow> addr list \<Rightarrow> 'u heap \<Rightarrow> addr list \<times> 'u heap" where
  "Mock_List_loop [] result h = (result, h)"
| "Mock_List_loop ((k, user) # rest) result h =
     (let (userCopy, h') = new (h ! user) h in Mock_List_loop rest (result @ [userCopy]) h')"

definition Mock_List ::
    "'u heap \<times> MockUserRepository \<Rightarrow> addr list \<times> ('u heap \<times> MockUserRepository)" where
  "Mock_List = (\<lambda>(h, r). let (result, h') = Mock_List_loop (users r) [] h in (result, (h', r)))"

text \<open>\<open>Create\<close> of \<open>repositories/repo.md\<close>; \<open>user\<close> is the caller's pointer.\<close>

definition Mock_Create ::
    "addr \<Rightarrow> User heap \<times> MockUserRepository \<Rightarrow> (error + addr) \<times> (User heap \<times> MockUserRepository)" where
  "Mock_Create user = (\<lambda>(h, m).
     if map_of (emails m) (User.Email (h ! user)) \<noteq> None then (Inl ErrStoreEmailUsed, (h, m))
     else
       let h1 = h[user := (h ! user)\<lparr>User.ID := nextID m\<rparr>];
           m1 = m\<lparr>nextID := add64 (nextID m) 1\<rparr>;
           (userCopy, h2) = new (h1 ! user) h1;
           m2 = m1\<lparr>users := AList.update (User.ID (h2 ! user)) userCopy (users m1)\<rparr>;
           m3 = m2\<lparr>emails := AList.update (User.Email (h2 ! user)) userCopy (emails m2)\<rparr>
       in (Inr userCopy, (h2, m3)))"

text \<open>
  Modelled from the spec: \<open>isEmailTaken\<close> (\<open>ExistsByEmail\<close>) is declared by the interface
  and no implementation of it is in the repository. The spec has it a lookup against the
  email index with no error path, the store comparing case-insensitively by normalising
  before it compares; the normalisation is the one \<open>NewUser\<close> applies at write time.
\<close>

definition Mock_isEmailTaken ::
    "(string \<Rightarrow> string) \<Rightarrow> string \<Rightarrow> User heap \<times> MockUserRepository
       \<Rightarrow> (error + bool) \<times> (User heap \<times> MockUserRepository)" where
  "Mock_isEmailTaken unicodeLower email = (\<lambda>(h, m).
     (Inr (map_of (emails m) (ToLower unicodeLower (TrimSpace email)) \<noteq> None), (h, m)))"

text \<open>
  Modelled from the spec: \<open>Count\<close> is declared by the interface and not implemented in the
  repository. The spec has it the total of live records.
\<close>

definition Mock_Count ::
    "User heap \<times> MockUserRepository \<Rightarrow> (error + int) \<times> (User heap \<times> MockUserRepository)" where
  "Mock_Count = (\<lambda>(h, m). (Inr (int (length (users m))), (h, m)))"

section \<open>The use cases: \<open>internal/domain/usecases/user_usecases.go\<close>\<close>

text \<open>
  The interface \<open>repositories.UserRepository\<close>. A method works on the memory and on the
  private state \<open>'s\<close> of the implementation; the context argument is left out. A result
  \<open>(*User, error)\<close> is the error or the pointer.
\<close>

record 's UserRepository =
  Create :: "addr \<Rightarrow> User heap \<times> 's \<Rightarrow> (error + addr) \<times> (User heap \<times> 's)"
  GetById :: "int \<Rightarrow> User heap \<times> 's \<Rightarrow> (error + addr) \<times> (User heap \<times> 's)"
  GetByEmail :: "string \<Rightarrow> User heap \<times> 's \<Rightarrow> (error + addr) \<times> (User heap \<times> 's)"
  isEmailTaken :: "string \<Rightarrow> User heap \<times> 's \<Rightarrow> (error + bool) \<times> (User heap \<times> 's)"
  Update :: "addr \<Rightarrow> User heap \<times> 's \<Rightarrow> (error + addr) \<times> (User heap \<times> 's)"
  DeleteById :: "int \<Rightarrow> User heap \<times> 's \<Rightarrow> error option \<times> (User heap \<times> 's)"
  List :: "int \<Rightarrow> int \<Rightarrow> User heap \<times> 's \<Rightarrow> (error + addr list) \<times> (User heap \<times> 's)"
  Count :: "User heap \<times> 's \<Rightarrow> (error + int) \<times> (User heap \<times> 's)"

text \<open>
  What an execution of a use case leaves behind: the memory, the repository, the calls
  made on the repository in their order, what the logger was given (the fields map left
  out), and what the goroutine started by \<open>Create\<close> gives the logger when it runs.
\<close>

datatype RepoCall =
    CallCreate addr
  | CallGetById int
  | CallGetByEmail string
  | CallIsEmailTaken string
  | CallUpdate addr
  | CallDeleteById int
  | CallList int int
  | CallCount

datatype LogEntry = Info string | Error string error

record 's Exec =
  mem :: "User heap"
  store :: 's
  calls :: "RepoCall list"
  logged :: "LogEntry list"
  detached :: "LogEntry list"

definition call :: "RepoCall \<Rightarrow> (User heap \<times> 's \<Rightarrow> 'a \<times> (User heap \<times> 's)) \<Rightarrow> 's Exec \<Rightarrow> 'a \<times> 's Exec" where
  "call c method \<sigma> =
     (let (r, (h, s)) = method (mem \<sigma>, store \<sigma>)
      in (r, \<sigma>\<lparr>mem := h, store := s, calls := calls \<sigma> @ [c]\<rparr>))"

definition logInfo :: "string \<Rightarrow> 's Exec \<Rightarrow> 's Exec" where
  "logInfo message \<sigma> = \<sigma>\<lparr>logged := logged \<sigma> @ [Info message]\<rparr>"

definition logError :: "string \<Rightarrow> error \<Rightarrow> 's Exec \<Rightarrow> 's Exec" where
  "logError message err \<sigma> = \<sigma>\<lparr>logged := logged \<sigma> @ [Error message err]\<rparr>"

record CreateUserRequest =
  Email :: string
  Name :: string
  Password :: string

record CreateUserResponse =
  ID :: int
  Email :: string
  Name :: string
  Created :: Time

text \<open>
  \<open>CreateUserUseCase.Execute\<close>. \<open>hash\<close> is \<open>PasswordHasher.Hash\<close> and \<open>sendWelcomeEmail\<close> is
  \<open>EmailSender.SendWelcomeEmail\<close>; \<open>now\<close> is what \<open>time.Now()\<close> returns inside \<open>NewUser\<close>.
\<close>

definition CreateUser_Execute ::
    "'s UserRepository \<Rightarrow> (string \<Rightarrow> error + string) \<Rightarrow> (string \<Rightarrow> string \<Rightarrow> error option)
       \<Rightarrow> (string \<Rightarrow> string) \<Rightarrow> Time \<Rightarrow> CreateUserRequest \<Rightarrow> 's Exec
       \<Rightarrow> (error + CreateUserResponse) \<times> 's Exec" where
  "CreateUser_Execute userRepo hash sendWelcomeEmail unicodeLower now req \<sigma>0 =
     (let \<sigma>1 = logInfo ''Creating new user'' \<sigma>0;
          (r1, \<sigma>2) = call (CallIsEmailTaken (CreateUserRequest.Email req))
                         (isEmailTaken userRepo (CreateUserRequest.Email req)) \<sigma>1
      in case r1 of
           Inl err \<Rightarrow> (Inl ErrEmailCheckFailed, logError ''Failed to check email existence'' err \<sigma>2)
         | Inr exists \<Rightarrow>
             if exists then (Inl ErrUserAlreadyExists, \<sigma>2)
             else
               (case NewUser unicodeLower now (CreateUserRequest.Email req)
                       (CreateUserRequest.Name req) (CreateUserRequest.Password req) of
                  Inl err \<Rightarrow> (Inl err, logError ''Failed to create user entity'' err \<sigma>2)
                | Inr u \<Rightarrow>
                    (let (user, h3) = new u (mem \<sigma>2);
                         \<sigma>3 = \<sigma>2\<lparr>mem := h3\<rparr>
                     in case hash (User.Password (mem \<sigma>3 ! user)) of
                          Inl err \<Rightarrow> (Inl ErrPasswordProcessing, logError ''Failed to hash password'' err \<sigma>3)
                        | Inr hashedPassword \<Rightarrow>
                            (let \<sigma>4 = \<sigma>3\<lparr>mem := (mem \<sigma>3)[user := (mem \<sigma>3 ! user)\<lparr>User.Password := hashedPassword\<rparr>]\<rparr>;
                                 (r2, \<sigma>5) = call (CallCreate user) (Create userRepo user) \<sigma>4
                             in case r2 of
                                  Inl err \<Rightarrow> (Inl ErrUserCreation, logError ''Failed to save user'' err \<sigma>5)
                                | Inr createdUser \<Rightarrow>
                                    (let cu = mem \<sigma>5 ! createdUser;
                                         \<sigma>6 = \<sigma>5\<lparr>detached := detached \<sigma>5 @
                                                (case sendWelcomeEmail (User.Email cu) (User.Name cu) of
                                                   Some err \<Rightarrow> [Error ''Failed to send welcome email'' err]
                                                 | None \<Rightarrow> [])\<rparr>;
                                         \<sigma>7 = logInfo ''User created successfully'' \<sigma>6
                                     in (Inr \<lparr>CreateUserResponse.ID = User.ID cu,
                                              CreateUserResponse.Email = User.Email cu,
                                              CreateUserResponse.Name = User.Name cu,
                                              CreateUserResponse.Created = User.Created cu\<rparr>, \<sigma>7))))))"

record GetUserResponse =
  ID :: int
  Email :: string
  Name :: string
  Created :: Time
  Updated :: Time



record UpdateUserRequest =
  ID :: int
  Email :: string
  Name :: string

record UpdateUserResponse =
  ID :: int
  Email :: string
  Name :: string
  Updated :: Time

text \<open>
  \<open>UpdateUserUseCase.Execute\<close>. Step 2 of the source returns from inside the \<open>if\<close>; here
  \<open>emailCheck\<close> yields the error it returns with, or \<open>None\<close> when the execution goes on.
\<close>

definition emailCheck ::
    "'s UserRepository \<Rightarrow> UpdateUserRequest \<Rightarrow> addr \<Rightarrow> 's Exec \<Rightarrow> error option \<times> 's Exec" where
  "emailCheck userRepo req user \<sigma>2 =
     (if User.Email (mem \<sigma>2 ! user) \<noteq> UpdateUserRequest.Email req then
        (let (r2, \<sigma>3) = call (CallIsEmailTaken (UpdateUserRequest.Email req))
                           (isEmailTaken userRepo (UpdateUserRequest.Email req)) \<sigma>2
         in case r2 of
              Inl err \<Rightarrow> (Some ErrEmailCheckFailed,
                          logError ''Failed to check email existence for update'' err \<sigma>3)
            | Inr exists \<Rightarrow> if exists then (Some ErrEmailAlreadyUsed, \<sigma>3) else (None, \<sigma>3))
      else (None, \<sigma>2))"

definition UpdateUser_Execute ::
    "'s UserRepository \<Rightarrow> (string \<Rightarrow> string) \<Rightarrow> Time \<Rightarrow> UpdateUserRequest \<Rightarrow> 's Exec
       \<Rightarrow> (error + UpdateUserResponse) \<times> 's Exec" where
  "UpdateUser_Execute userRepo unicodeLower now req \<sigma>0 =
     (let \<sigma>1 = logInfo ''Updating user'' \<sigma>0;
          (r1, \<sigma>2) = call (CallGetById (UpdateUserRequest.ID req))
                         (GetById userRepo (UpdateUserRequest.ID req)) \<sigma>1
      in case r1 of
           Inl err \<Rightarrow> (Inl ErrUserNotFound, logError ''Failed to get user for update'' err \<sigma>2)
         | Inr user \<Rightarrow>
             (case emailCheck userRepo req user \<sigma>2 of
                (Some err, \<sigma>3) \<Rightarrow> (Inl err, \<sigma>3)
              | (None, \<sigma>3) \<Rightarrow>
                  (case UpdateUserProfile unicodeLower now (UpdateUserRequest.Name req)
                          (UpdateUserRequest.Email req) (mem \<sigma>3 ! user) of
                     (Some err, u') \<Rightarrow>
                       (Inl err, logError ''Failed to update user profile'' err (\<sigma>3\<lparr>mem := (mem \<sigma>3)[user := u']\<rparr>))
                   | (None, u') \<Rightarrow>
                       (let \<sigma>4 = \<sigma>3\<lparr>mem := (mem \<sigma>3)[user := u']\<rparr>;
                            (r3, \<sigma>5) = call (CallUpdate user) (Update userRepo user) \<sigma>4
                        in case r3 of
                             Inl err \<Rightarrow> (Inl ErrUpdateFailed, logError ''Failed to save user update'' err \<sigma>5)
                           | Inr _ \<Rightarrow>
                               (let \<sigma>6 = logInfo ''User updated successfully'' \<sigma>5;
                                    u = mem \<sigma>6 ! user
                                in (Inr \<lparr>UpdateUserResponse.ID = User.ID u,
                                         UpdateUserResponse.Email = User.Email u,
                                         UpdateUserResponse.Name = User.Name u,
                                         UpdateUserResponse.Updated = User.Updated u\<rparr>, \<sigma>6))))))"

record ListUsersRequest =
  Page :: int
  PageSize :: int

record ListUsersResponse =
  Users :: "GetUserResponse list"
  Total :: int
  Page :: int
  PageSize :: int
  TotalPages :: int

text \<open>
  \<open>ListUsersUseCase.Execute\<close>. The divisor \<open>pageSize\<close> is never 0 (0 has been replaced by
  10), so the division does not panic.
\<close>

definition ListUsers_Execute ::
    "'s UserRepository \<Rightarrow> ListUsersRequest \<Rightarrow> 's Exec \<Rightarrow> (error + ListUsersResponse) \<times> 's Exec" where
  "ListUsers_Execute userRepo req \<sigma>0 =
     (let page = (if ListUsersRequest.Page req = 0 then 1 else ListUsersRequest.Page req);
          pageSize = (if ListUsersRequest.PageSize req = 0 then 10 else ListUsersRequest.PageSize req);
          offset = mul64 (sub64 page 1) pageSize;
          (r1, \<sigma>1) = call (CallList pageSize offset) (List userRepo pageSize offset) \<sigma>0
      in case r1 of
           Inl err \<Rightarrow> (Inl ErrListFailed, logError ''Failed to list users'' err \<sigma>1)
         | Inr found \<Rightarrow>
             (let (r2, \<sigma>2) = call CallCount (Count userRepo) \<sigma>1
              in case r2 of
                   Inl err \<Rightarrow> (Inl ErrCountFailed, logError ''Failed to count users'' err \<sigma>2)
                 | Inr totalCount \<Rightarrow>
                     (let userResponses =
                            map (\<lambda>user. let u = mem \<sigma>2 ! user
                                        in \<lparr>GetUserResponse.ID = User.ID u,
                                            GetUserResponse.Email = User.Email u,
                                            GetUserResponse.Name = User.Name u,
                                            GetUserResponse.Created = User.Created u,
                                            GetUserResponse.Updated = User.Updated u\<rparr>) found;
                          totalPages = div64 (sub64 (add64 totalCount pageSize) 1) pageSize
                      in (Inr \<lparr>ListUsersResponse.Users = userResponses,
                               ListUsersResponse.Total = totalCount,
                               ListUsersResponse.Page = page,
                               ListUsersResponse.PageSize = pageSize,
                               ListUsersResponse.TotalPages = totalPages\<rparr>, \<sigma>2))))"

text \<open>
  The mock repository behind the interface. \<open>GetById\<close> is the demonstration file's
  \<open>GetByID\<close>; the four methods of which the sources show no implementation are
  parameters.
\<close>

definition mockRepository ::
    "(string \<Rightarrow> string)
       \<Rightarrow> (string \<Rightarrow> User heap \<times> MockUserRepository \<Rightarrow> (error + addr) \<times> (User heap \<times> MockUserRepository))
       \<Rightarrow> (addr \<Rightarrow> User heap \<times> MockUserRepository \<Rightarrow> (error + addr) \<times> (User heap \<times> MockUserRepository))
       \<Rightarrow> (int \<Rightarrow> User heap \<times> MockUserRepository \<Rightarrow> error option \<times> (User heap \<times> MockUserRepository))
       \<Rightarrow> (int \<Rightarrow> int \<Rightarrow> User heap \<times> MockUserRepository \<Rightarrow> (error + addr list) \<times> (User heap \<times> MockUserRepository))
       \<Rightarrow> MockUserRepository UserRepository" where
  "mockRepository unicodeLower getByEmail update deleteById list =
     \<lparr>Create = Mock_Create,
      GetById = Mock_GetByID,
      GetByEmail = getByEmail,
      isEmailTaken = Mock_isEmailTaken unicodeLower,
      Update = update,
      DeleteById = deleteById,
      List = list,
      Count = Mock_Count\<rparr>"

section \<open>The constructor's acceptance condition in the words of the specification\<close>

text \<open>
  The three conditions as the specification words them, to be compared with what
  \<open>NewUser\<close> checks. A text of Latin letters (the range \<open>U+00C0\<close> to \<open>U+00FF\<close> included),
  white space, hyphens, apostrophes and periods is built rune by rune; a name contains an
  offensive word case-insensitively when the word is a contiguous part of the lowered
  name.
\<close>

inductive latinNameText :: "string \<Rightarrow> bool" where
  empty: "latinNameText []"
| ascii: "nameClassASCII c \<Longrightarrow> latinNameText cs \<Longrightarrow> latinNameText (c # cs)"
| latin1: "(0x80::nat) \<le> of_char d \<Longrightarrow> (of_char d :: nat) \<le> 0xBF \<Longrightarrow> latinNameText cs
            \<Longrightarrow> latinNameText (CHR 0xC3 # d # cs)"

definition spec_emailAccepted :: "string \<Rightarrow> bool" where
  "spec_emailAccepted email =
     (TrimSpace email \<noteq> [] \<and> CHR ''@'' \<in> set (TrimSpace email) \<and> length (TrimSpace email) \<le> 255)"

definition spec_nameAccepted :: "string \<Rightarrow> bool" where
  "spec_nameAccepted name =
     (2 \<le> length (TrimSpace name) \<and> length (TrimSpace name) \<le> 100
      \<and> \<not> list_ex (\<lambda>w. sublist w (map asciiLower (TrimSpace name))) offensiveWords
      \<and> latinNameText (TrimSpace name))"

definition spec_passwordAccepted :: "string \<Rightarrow> bool" where
  "spec_passwordAccepted password = (password \<noteq> [] \<and> 6 \<le> length password \<and> length password \<le> 128)"

definition lowerLetter :: "char \<Rightarrow> bool" where
  "lowerLetter p = ((0x61::nat) \<le> of_char p \<and> (of_char p :: nat) \<le> 0x7A)"

section \<open>Notions the properties of the repository and of the use cases are stated with\<close>

text \<open>
  Every pointer the repository holds points to an allocated object (in Go a pointer that
  is not nil always does).
\<close>

definition pointersValid :: "'u heap \<times> MockUserRepository \<Rightarrow> bool" where
  "pointersValid = (\<lambda>(h, r). list_all (\<lambda>(k, p). p < length h) (users r))"

text \<open>What the caller of a method returning \<open>(*User, error)\<close> reads through the pointer.\<close>

definition returned :: "(error + addr) \<times> ('u heap \<times> 's) \<Rightarrow> error + 'u" where
  "returned out = (case fst out of Inl err \<Rightarrow> Inl err | Inr p \<Rightarrow> Inr (fst (snd out) ! p))"



text \<open>The values of Go's \<open>int\<close>, and the page and the page size after the defaults.\<close>

definition isInt64 :: "int \<Rightarrow> bool" where
  "isInt64 x = (- (2 ^ 63) \<le> x \<and> x < 2 ^ 63)"

definition pageOrDefault :: "ListUsersRequest \<Rightarrow> int" where
  "pageOrDefault req = (if ListUsersRequest.Page req = 0 then 1 else ListUsersRequest.Page req)"

definition pageSizeOrDefault :: "ListUsersRequest \<Rightarrow> int" where
  "pageSizeOrDefault req =
     (if ListUsersRequest.PageSize req = 0 then 10 else ListUsersRequest.PageSize req)"

text \<open>The part of a user each response shows: what the use cases copy into it.\<close>

definition asCreateUserResponse :: "User \<Rightarrow> CreateUserResponse" where
  "asCreateUserResponse u =
     \<lparr>CreateUserResponse.ID = User.ID u, CreateUserResponse.Email = User.Email u,
      CreateUserResponse.Name = User.Name u, CreateUserResponse.Created = User.Created u\<rparr>"

definition asGetUserResponse :: "User \<Rightarrow> GetUserResponse" where
  "asGetUserResponse u =
     \<lparr>GetUserResponse.ID = User.ID u, GetUserResponse.Email = User.Email u,
      GetUserResponse.Name = User.Name u, GetUserResponse.Created = User.Created u,
      GetUserResponse.Updated = User.Updated u\<rparr>"


subsection \<open>A repository holding one user, and collaborators to run the use cases with\<close>

definition counted :: "int \<Rightarrow> 'w \<Rightarrow> (error + int) \<times> 'w" where
  "counted n w = (Inr n, w)"

definition unavailable :: "'a \<Rightarrow> 'w \<Rightarrow> (error + 'b) \<times> 'w" where
  "unavailable x w = (Inl (ErrExternal ''unavailable''), w)"

definition accepted :: "addr \<Rightarrow> 'w \<Rightarrow> (error + addr) \<times> 'w" where
  "accepted user w = (Inr user, w)"

definition deleted :: "int \<Rightarrow> 'w \<Rightarrow> error option \<times> 'w" where
  "deleted uid w = (None, w)"

definition listed :: "addr list \<Rightarrow> int \<Rightarrow> int \<Rightarrow> 'w \<Rightarrow> (error + addr list) \<times> 'w" where
  "listed ps limit offset w = (Inr ps, w)"

definition sampleRepository :: "MockUserRepository UserRepository" where
  "sampleRepository = mockRepository (\<lambda>s. s) (\<lambda>email. accepted 1) accepted deleted (listed [1])"

definition sampleHash :: "string \<Rightarrow> error + string" where
  "sampleHash password = Inr (CHR ''#'' # password)"

definition failingSender :: "string \<Rightarrow> string \<Rightarrow> error option" where
  "failingSender email name = Some (ErrExternal ''smtp down'')"

definition aliceStored :: User where
  "aliceStored =
     \<lparr>User.ID = 1, User.Email = ''a@x.com'', User.Name = ''Ann'', User.Password = ''#secret1'',
      User.Created = 5, User.Updated = 5\<rparr>"

definition emptyExec :: "MockUserRepository Exec" where
  "emptyExec = \<lparr>mem = [], store = NewMockUserRepository, calls = [], logged = [], detached = []\<rparr>"

text \<open>
  The state \<open>Create\<close> leaves behind for the request \<open>a@x.com\<close>, \<open>Ann\<close>, \<open>secret1\<close> on the
  empty repository: object 0 is the use case's, object 1 the repository's.
\<close>

definition aliceExec :: "MockUserRepository Exec" where
  "aliceExec =
     \<lparr>mem = [aliceStored, aliceStored],
      store = \<lparr>users = [(1, 1)], emails = [(''a@x.com'', 1)], nextID = 2\<rparr>,
      calls = [], logged = [], detached = []\<rparr>"



section \<open>Properties of the entity\<close>

subsection \<open>The two regular expressions\<close>

lemma not_nameClassASCII_C3: "\<not> nameClassASCII (CHR 0xC3)"
  by (simp add: nameClassASCII_def)

lemma nameClassOnly_cases:
  assumes "nameClassOnly (c # cs)" and "\<not> nameClassASCII c"
  obtains d ds where "c = CHR 0xC3" and "cs = d # ds" and "(0x80::nat) \<le> of_char d"
    and "(of_char d :: nat) \<le> 0xBF" and "nameClassOnly ds"
  using assms by (auto split: if_splits list.splits)

lemma nameClassOnly_iff: "nameClassOnly s = latinNameText s"
proof
  show "nameClassOnly s \<Longrightarrow> latinNameText s"
  proof (induction s rule: nameClassOnly.induct)
    case 1
    show ?case by (rule latinNameText.empty)
  next
    case (2 c cs)
    show ?case
    proof (cases "nameClassASCII c")
      case True
      with 2 show ?thesis by (simp add: latinNameText.ascii)
    next
      case False
      from "2.prems" False obtain d ds where "c = CHR 0xC3" "cs = d # ds" "(0x80::nat) \<le> of_char d"
          "(of_char d :: nat) \<le> 0xBF" "nameClassOnly ds"
        by (rule nameClassOnly_cases)
      with 2 False show ?thesis by (auto intro: latinNameText.latin1)
    qed
  qed
next
  show "latinNameText s \<Longrightarrow> nameClassOnly s"
    by (induction rule: latinNameText.induct) (simp_all add: not_nameClassASCII_C3)
qed

text \<open>No byte of a name of the class starts the encoding of the Kelvin sign or the long s.\<close>

lemma nameClassOnly_bytes:
  "nameClassOnly s \<Longrightarrow> c \<in> set s \<Longrightarrow> c \<noteq> CHR 0xE2 \<and> c \<noteq> CHR 0xC5"
proof (induction s rule: nameClassOnly.induct)
  case 1
  then show ?case by simp
next
  case (2 a cs)
  show ?case
  proof (cases "nameClassASCII a")
    case True
    with 2 show ?thesis by (auto simp: nameClassASCII_def)
  next
    case False
    from "2.prems"(1) False obtain d ds where "a = CHR 0xC3" "cs = d # ds" "(0x80::nat) \<le> of_char d"
        "(of_char d :: nat) \<le> 0xBF" "nameClassOnly ds"
      by (rule nameClassOnly_cases)
    with 2 False show ?thesis by auto
  qed
qed

lemma char_eq_nat: "(c = d) = ((of_char c :: nat) = of_char d)"
  by simp

lemma fold_ascii:
  assumes "lowerLetter p"
  shows "(d = p \<or> d = asciiUpper p) = (asciiLower d = p)"
proof -
  define P D :: nat where "P = of_char p" and "D = of_char d"
  have P: "97 \<le> P" "P \<le> 122" using assms by (simp_all add: lowerLetter_def P_def)
  have D: "D < 256" by (simp add: D_def)
  have up: "(d = asciiUpper p) = (D = P - 32)"
    using P by (simp add: asciiUpper_def char_eq_nat [of d] P_def [symmetric] D_def [symmetric])
  have lo: "(asciiLower d = p) = (if 65 \<le> D \<and> D \<le> 90 then D + 32 = P else D = P)"
    using D by (simp add: asciiLower_def char_eq_nat [of _ p] P_def [symmetric] D_def [symmetric])
  have eq: "(d = p) = (D = P)" by (simp add: P_def D_def)
  show ?thesis unfolding up lo eq using P D by auto
qed

lemma offensiveWords_lower: "w \<in> set offensiveWords \<Longrightarrow> w \<noteq> [] \<and> list_all lowerLetter w"
  by (auto simp: offensiveWords_def lowerLetter_def)

lemma matchWordAt_prefix:
  assumes "list_all lowerLetter w" and "\<forall>c\<in>set s. c \<noteq> CHR 0xE2 \<and> c \<noteq> CHR 0xC5"
  shows "matchWordAt w s = prefix w (map asciiLower s)"
  using assms
proof (induction w arbitrary: s)
  case Nil
  show ?case by simp
next
  case (Cons p ps)
  show ?case
  proof (cases s)
    case Nil
    then show ?thesis by (simp add: foldOrbit_def)
  next
    case (Cons d ds)
    have ih: "matchWordAt ps ds = prefix ps (map asciiLower ds)"
      using Cons.IH [of ds] Cons.prems Cons by simp
    have d: "d \<noteq> CHR 0xE2" "d \<noteq> CHR 0xC5" using Cons.prems Cons by auto
    have p: "lowerLetter p" using Cons.prems by simp
    have "matchWordAt (p # ps) (d # ds) = ((d = p \<or> d = asciiUpper p) \<and> matchWordAt ps ds)"
      using d by (auto simp: foldOrbit_def)
    also have "\<dots> = (asciiLower d = p \<and> prefix ps (map asciiLower ds))"
      by (simp add: fold_ascii [OF p] ih)
    finally show ?thesis using Cons by auto
  qed
qed

lemma offensive_iff:
  assumes "\<forall>c\<in>set s. c \<noteq> CHR 0xE2 \<and> c \<noteq> CHR 0xC5"
  shows "offensiveNameRegex_MatchString s
           = list_ex (\<lambda>w. sublist w (map asciiLower s)) offensiveWords"
  using assms
proof (induction s)
  case Nil
  show ?case using offensiveWords_lower by (auto simp: list_ex_iff)
next
  case (Cons c cs)
  have ih: "offensiveNameRegex_MatchString cs
              = list_ex (\<lambda>w. sublist w (map asciiLower cs)) offensiveWords"
    using Cons by simp
  have m: "w \<in> set offensiveWords
             \<Longrightarrow> matchWordAt w (c # cs) = prefix w (map asciiLower (c # cs))" for w
    using matchWordAt_prefix [of w "c # cs"] offensiveWords_lower [of w] Cons.prems by blast
  show ?case
    unfolding offensiveNameRegex_MatchString.simps ih list_ex_iff
    using m by (auto simp: sublist_Cons_right)
qed

lemma contains_char: "sublist [c] s = (c \<in> set s)"
  by (induction s) (auto simp: sublist_Cons_right)

subsection \<open>The validators against the specification's conditions\<close>

lemma validateEmail_iff: "(validateEmail email = None) = spec_emailAccepted email"
  by (auto simp: validateEmail_def spec_emailAccepted_def Let_def contains_char)

lemma validatePassword_iff: "(validatePassword password = None) = spec_passwordAccepted password"
  by (auto simp: validatePassword_def spec_passwordAccepted_def)

lemma validateName_iff: "(validateName name = None) = spec_nameAccepted name"
proof (cases "nameClassOnly (TrimSpace name)")
  case True
  then have "\<forall>c\<in>set (TrimSpace name). c \<noteq> CHR 0xE2 \<and> c \<noteq> CHR 0xC5"
    using nameClassOnly_bytes by blast
  then have "offensiveNameRegex_MatchString (TrimSpace name)
               = list_ex (\<lambda>w. sublist w (map asciiLower (TrimSpace name))) offensiveWords"
    by (rule offensive_iff)
  with True show ?thesis
    by (auto simp: validateName_def spec_nameAccepted_def Let_def validNameRegex_MatchString_def
        nameClassOnly_iff [symmetric])
next
  case False
  then show ?thesis
    by (auto simp: validateName_def spec_nameAccepted_def Let_def validNameRegex_MatchString_def
        nameClassOnly_iff [symmetric])
qed

subsection \<open>The claims about the entity\<close>

text \<open>
  C8. For every email, name and password the constructor accepts, the user it returns has
  the lowercased, trimmed email, the trimmed name, and the password as it was given.
\<close>

theorem NewUser_normalises:
  assumes "NewUser unicodeLower now email name password = Inr u"
  shows "User.Email u = ToLower unicodeLower (TrimSpace email)
         \<and> User.Name u = TrimSpace name
         \<and> User.Password u = password"
  using assms by (auto simp: NewUser_def split: option.splits)

theorem NewUser_normalises_witness:
  "NewUser (\<lambda>s. s) 5 '' A@X.com '' '' Ann'' ''secret1''
     = Inr \<lparr>User.ID = 0, User.Email = ''a@x.com'', User.Name = ''Ann'', User.Password = ''secret1'',
            User.Created = 5, User.Updated = 5\<rparr>
   \<and> ToLower (\<lambda>s. s) (TrimSpace '' A@X.com '') = ''a@x.com''
   \<and> TrimSpace '' Ann'' = ''Ann''"
proof -
  have run: "NewUser (\<lambda>s. s) 5 '' A@X.com '' '' Ann'' ''secret1''
     = Inr \<lparr>User.ID = 0, User.Email = ''a@x.com'', User.Name = ''Ann'', User.Password = ''secret1'',
            User.Created = 5, User.Updated = 5\<rparr>"
    by code_simp
  from NewUser_normalises [OF run] run show ?thesis by simp
qed

text \<open>
  C9. The constructor succeeds exactly when the trimmed email is not empty, contains
  \<open>@\<close> and has at most 255 bytes; the trimmed name has 2 to 100 bytes, contains no
  offensive word whatever the case of its letters, and is made of Latin letters, white
  space, hyphens, apostrophes and periods only; and the password is not empty and has 6
  to 128 bytes.
\<close>

theorem NewUser_accepts_iff:
  "(\<exists>u. NewUser unicodeLower now email name password = Inr u)
     = (spec_emailAccepted email \<and> spec_nameAccepted name \<and> spec_passwordAccepted password)"
  unfolding validateEmail_iff [symmetric] validateName_iff [symmetric] validatePassword_iff [symmetric]
  by (auto simp: NewUser_def split: option.splits)

theorem NewUser_accepts_iff_witness:
  "(\<exists>u. NewUser (\<lambda>s. s) 5 '' A@X.com '' '' Ann'' ''secret1'' = Inr u)
   \<and> spec_emailAccepted '' A@X.com '' \<and> spec_nameAccepted '' Ann'' \<and> spec_passwordAccepted ''secret1''
   \<and> \<not> (\<exists>u. NewUser (\<lambda>s. s) 5 ''a@x.com'' ''Mr Shithead'' ''secret1'' = Inr u)
   \<and> \<not> spec_nameAccepted ''Mr Shithead''"
proof -
  have ok: "NewUser (\<lambda>s. s) 5 '' A@X.com '' '' Ann'' ''secret1''
     = Inr \<lparr>User.ID = 0, User.Email = ''a@x.com'', User.Name = ''Ann'', User.Password = ''secret1'',
            User.Created = 5, User.Updated = 5\<rparr>"
    by code_simp
  have bad: "NewUser (\<lambda>s. s) 5 ''a@x.com'' ''Mr Shithead'' ''secret1'' = Inl ErrOffensiveName"
    by code_simp
  from ok have 1: "\<exists>u. NewUser (\<lambda>s. s) 5 '' A@X.com '' '' Ann'' ''secret1'' = Inr u"
    by blast
  from bad have 2: "\<not> (\<exists>u. NewUser (\<lambda>s. s) 5 ''a@x.com'' ''Mr Shithead'' ''secret1'' = Inr u)"
    by simp
  have 3: "spec_emailAccepted ''a@x.com''" "spec_passwordAccepted ''secret1''"
    by (code_simp, code_simp)
  show ?thesis
    using 1 2 3 NewUser_accepts_iff [of "\<lambda>s. s" 5 "'' A@X.com ''" "'' Ann''" "''secret1''"]
      NewUser_accepts_iff [of "\<lambda>s. s" 5 "''a@x.com''" "''Mr Shithead''" "''secret1''"]
    by blast
qed

text \<open>
  C10. When \<open>UpdateUserProfile\<close> or \<open>ChangePassword\<close> returns an error, the receiver is as
  it was before the call, in every field.
\<close>

theorem mutators_atomic:
  "(fst (UpdateUserProfile unicodeLower now name email u) \<noteq> None
      \<longrightarrow> snd (UpdateUserProfile unicodeLower now name email u) = u)
   \<and> (fst (ChangePassword now newPassword u) \<noteq> None
      \<longrightarrow> snd (ChangePassword now newPassword u) = u)"
  by (auto simp: UpdateUserProfile_def ChangePassword_def split: option.splits)

theorem mutators_atomic_witness:
  "fst (UpdateUserProfile (\<lambda>s. s) 9 ''A'' ''b@x.com''
          \<lparr>User.ID = 1, User.Email = ''a@x.com'', User.Name = ''Ann'', User.Password = ''secret1'',
           User.Created = 5, User.Updated = 5\<rparr>) = Some ErrNameTooShort
   \<and> snd (UpdateUserProfile (\<lambda>s. s) 9 ''A'' ''b@x.com''
          \<lparr>User.ID = 1, User.Email = ''a@x.com'', User.Name = ''Ann'', User.Password = ''secret1'',
           User.Created = 5, User.Updated = 5\<rparr>)
       = \<lparr>User.ID = 1, User.Email = ''a@x.com'', User.Name = ''Ann'', User.Password = ''secret1'',
          User.Created = 5, User.Updated = 5\<rparr>
   \<and> fst (ChangePassword 9 ''abc''
          \<lparr>User.ID = 1, User.Email = ''a@x.com'', User.Name = ''Ann'', User.Password = ''secret1'',
           User.Created = 5, User.Updated = 5\<rparr>) = Some ErrPasswordTooShort
   \<and> snd (ChangePassword 9 ''abc''
          \<lparr>User.ID = 1, User.Email = ''a@x.com'', User.Name = ''Ann'', User.Password = ''secret1'',
           User.Created = 5, User.Updated = 5\<rparr>)
       = \<lparr>User.ID = 1, User.Email = ''a@x.com'', User.Name = ''Ann'', User.Password = ''secret1'',
          User.Created = 5, User.Updated = 5\<rparr>"
proof -
  let ?u = "\<lparr>User.ID = 1, User.Email = ''a@x.com'', User.Name = ''Ann'', User.Password = ''secret1'',
            User.Created = 5, User.Updated = 5\<rparr>"
  have 1: "fst (UpdateUserProfile (\<lambda>s. s) 9 ''A'' ''b@x.com'' ?u) = Some ErrNameTooShort"
    by code_simp
  have 2: "fst (ChangePassword 9 ''abc'' ?u) = Some ErrPasswordTooShort"
    by code_simp
  from 1 2 mutators_atomic [of "\<lambda>s. s" 9 "''A''" "''b@x.com''" ?u "''abc''"]
  show ?thesis by simp
qed

text \<open>
  C3, as the code has it. \<open>NewUser\<close> sets \<open>Updated\<close> to \<open>Created\<close>. A successful
  \<open>UpdateUserProfile\<close> or \<open>ChangePassword\<close> leaves \<open>Created\<close> alone and sets \<open>Updated\<close> to
  the time of the call, whatever that time is; so afterwards \<open>Updated\<close> is at or after its
  previous value exactly when the time of the call is, and at or after \<open>Created\<close> exactly
  when the time of the call is.
\<close>

theorem timestamps_invariant:
  "(NewUser unicodeLower now email name password = Inr u \<longrightarrow> User.Updated u = User.Created u)
   \<and> (UpdateUserProfile unicodeLower nowU nameU emailU before = (None, after)
      \<longrightarrow> User.Created after = User.Created before \<and> User.Updated after = nowU
          \<and> (User.Updated before \<le> User.Updated after) = (User.Updated before \<le> nowU)
          \<and> (User.Created after \<le> User.Updated after) = (User.Created before \<le> nowU))
   \<and> (ChangePassword nowP newPassword before' = (None, after')
      \<longrightarrow> User.Created after' = User.Created before' \<and> User.Updated after' = nowP
          \<and> (User.Updated before' \<le> User.Updated after') = (User.Updated before' \<le> nowP)
          \<and> (User.Created after' \<le> User.Updated after') = (User.Created before' \<le> nowP))"
  by (auto simp: NewUser_def UpdateUserProfile_def ChangePassword_def split: option.splits)

theorem timestamps_invariant_witness:
  "NewUser (\<lambda>s. s) 5 ''a@x.com'' ''Ann'' ''secret1''
     = Inr \<lparr>User.ID = 0, User.Email = ''a@x.com'', User.Name = ''Ann'', User.Password = ''secret1'',
            User.Created = 5, User.Updated = 5\<rparr>
   \<and> UpdateUserProfile (\<lambda>s. s) 9 ''Annie'' ''a@x.com''
        \<lparr>User.ID = 0, User.Email = ''a@x.com'', User.Name = ''Ann'', User.Password = ''secret1'',
         User.Created = 5, User.Updated = 5\<rparr>
     = (None, \<lparr>User.ID = 0, User.Email = ''a@x.com'', User.Name = ''Annie'', User.Password = ''secret1'',
               User.Created = 5, User.Updated = 9\<rparr>)
   \<and> ChangePassword 9 ''secret2''
        \<lparr>User.ID = 0, User.Email = ''a@x.com'', User.Name = ''Ann'', User.Password = ''secret1'',
         User.Created = 5, User.Updated = 5\<rparr>
     = (None, \<lparr>User.ID = 0, User.Email = ''a@x.com'', User.Name = ''Ann'', User.Password = ''secret2'',
               User.Created = 5, User.Updated = 9\<rparr>)
   \<and> (5::int) \<le> 9"
proof -
  let ?u = "\<lparr>User.ID = 0, User.Email = ''a@x.com'', User.Name = ''Ann'', User.Password = ''secret1'',
            User.Created = 5, User.Updated = 5\<rparr>"
  let ?u1 = "\<lparr>User.ID = 0, User.Email = ''a@x.com'', User.Name = ''Annie'', User.Password = ''secret1'',
            User.Created = 5, User.Updated = 9\<rparr>"
  let ?u2 = "\<lparr>User.ID = 0, User.Email = ''a@x.com'', User.Name = ''Ann'', User.Password = ''secret2'',
            User.Created = 5, User.Updated = 9\<rparr>"
  have 1: "NewUser (\<lambda>s. s) 5 ''a@x.com'' ''Ann'' ''secret1'' = Inr ?u"
    by code_simp
  have 2: "UpdateUserProfile (\<lambda>s. s) 9 ''Annie'' ''a@x.com'' ?u = (None, ?u1)"
    by code_simp
  have 3: "ChangePassword 9 ''secret2'' ?u = (None, ?u2)"
    by code_simp
  from 1 2 3
    timestamps_invariant [where unicodeLower = "\<lambda>s. s" and now = 5 and email = "''a@x.com''"
      and name = "''Ann''" and password = "''secret1''" and u = ?u
      and nowU = 9 and nameU = "''Annie''" and emailU = "''a@x.com''" and before = ?u and after = ?u1
      and nowP = 9 and newPassword = "''secret2''" and before' = ?u and after' = ?u2]
  show ?thesis by simp
qed

text \<open>
  C3 as the specification states it, \<open>Updated\<close> at or after \<open>Created\<close> at all times and
  never decreasing, fails when \<open>time.Now()\<close> reads earlier than the user's timestamps: the
  user created and updated at time 5 and successfully mutated at time 3 has \<open>Updated = 3\<close>,
  before its \<open>Created = 5\<close> and before its previous \<open>Updated = 5\<close>.
\<close>

theorem timestamps_clock_backwards:
  "UpdateUserProfile (\<lambda>s. s) 3 ''Annie'' ''a@x.com''
        \<lparr>User.ID = 1, User.Email = ''a@x.com'', User.Name = ''Ann'', User.Password = ''secret1'',
         User.Created = 5, User.Updated = 5\<rparr>
     = (None, \<lparr>User.ID = 1, User.Email = ''a@x.com'', User.Name = ''Annie'', User.Password = ''secret1'',
               User.Created = 5, User.Updated = 3\<rparr>)
   \<and> ChangePassword 3 ''secret2''
        \<lparr>User.ID = 1, User.Email = ''a@x.com'', User.Name = ''Ann'', User.Password = ''secret1'',
         User.Created = 5, User.Updated = 5\<rparr>
     = (None, \<lparr>User.ID = 1, User.Email = ''a@x.com'', User.Name = ''Ann'', User.Password = ''secret2'',
               User.Created = 5, User.Updated = 3\<rparr>)
   \<and> \<not> (5::int) \<le> 3"
proof -
  let ?u = "\<lparr>User.ID = 1, User.Email = ''a@x.com'', User.Name = ''Ann'', User.Password = ''secret1'',
            User.Created = 5, User.Updated = 5\<rparr>"
  have 1: "UpdateUserProfile (\<lambda>s. s) 3 ''Annie'' ''a@x.com'' ?u
             = (None, \<lparr>User.ID = 1, User.Email = ''a@x.com'', User.Name = ''Annie'',
                       User.Password = ''secret1'', User.Created = 5, User.Updated = 3\<rparr>)"
    by code_simp
  have 2: "ChangePassword 3 ''secret2'' ?u
             = (None, \<lparr>User.ID = 1, User.Email = ''a@x.com'', User.Name = ''Ann'',
                       User.Password = ''secret2'', User.Created = 5, User.Updated = 3\<rparr>)"
    by code_simp
  from 1 2 show ?thesis by simp
qed

section \<open>Properties of the mock repository\<close>

subsection \<open>The copies \<open>GetByID\<close> and \<open>List\<close> return\<close>

lemma Mock_GetByID_frame:
  assumes "length h' = length h" and "\<forall>(k, p)\<in>set (users r). h' ! p = h ! p"
  shows "returned (Mock_GetByID uid (h', r)) = returned (Mock_GetByID uid (h, r))"
proof (cases "map_of (users r) uid")
  case None
  then show ?thesis by (simp add: Mock_GetByID_def returned_def)
next
  case (Some p)
  then have "(uid, p) \<in> set (users r)" by (rule map_of_SomeD)
  with assms(2) have "h' ! p = h ! p" by auto
  with Some assms(1) show ?thesis
    by (simp add: Mock_GetByID_def returned_def new_def nth_append)
qed

lemma Mock_GetByID_fresh:
  assumes "Mock_GetByID uid (h, r) = (Inr p, (h1, r1))"
  shows "p = length h \<and> length h1 = Suc (length h) \<and> r1 = r \<and> take (length h) h1 = h"
  using assms by (auto simp: Mock_GetByID_def new_def split: option.splits)

lemma Mock_List_loop_fresh:
  assumes "Mock_List_loop us acc h = (ps, h1)"
  shows "length h \<le> length h1 \<and> take (length h) h1 = h
         \<and> set ps \<subseteq> set acc \<union> {length h ..< length h1}"
  using assms
proof (induction us arbitrary: acc h)
  case Nil
  then show ?case by auto
next
  case (Cons a us)
  obtain k user where a: "a = (k, user)" by (cases a)
  from Cons.prems a have run: "Mock_List_loop us (acc @ [length h]) (h @ [h ! user]) = (ps, h1)"
    by (simp add: new_def)
  from Cons.IH [OF run]
  have ih: "length (h @ [h ! user]) \<le> length h1"
      "take (length (h @ [h ! user])) h1 = h @ [h ! user]"
      "set ps \<subseteq> set (acc @ [length h]) \<union> {length (h @ [h ! user]) ..< length h1}"
    by auto
  have "take (length h) h1 = take (length h) (take (length (h @ [h ! user])) h1)"
    by (simp add: min_def)
  also have "\<dots> = take (length h) (h @ [h ! user])" by (simp only: ih(2))
  also have "\<dots> = h" by simp
  finally have "take (length h) h1 = h" .
  with ih show ?case by auto
qed

lemma Mock_List_fresh:
  assumes "Mock_List (h, r) = (ps, (h1, r1))"
  shows "length h \<le> length h1 \<and> take (length h) h1 = h \<and> r1 = r
         \<and> set ps \<subseteq> {length h ..< length h1}"
proof -
  obtain qs g where loop: "Mock_List_loop (users r) [] h = (qs, g)"
    by (cases "Mock_List_loop (users r) [] h")
  with assms have "qs = ps" "g = h1" "r1 = r" by (simp_all add: Mock_List_def)
  with Mock_List_loop_fresh [OF loop] show ?thesis by simp
qed

text \<open>
  Whatever the caller writes through the pointer \<open>GetByID\<close> returned, or through one of
  the pointers \<open>List\<close> returned, a later \<open>GetByID\<close> returns what it would have returned.
\<close>

lemma GetByID_copy_isolated:
  assumes "pointersValid (h, r)" and "Mock_GetByID uid (h, r) = (Inr p, (h1, r1))"
  shows "returned (Mock_GetByID uid' (h1[p := v], r1)) = returned (Mock_GetByID uid' (h1, r1))"
proof -
  from Mock_GetByID_fresh [OF assms(2)]
  have f: "p = length h" "r1 = r" "take (length h) h1 = h" by auto
  have "\<forall>(k, q)\<in>set (users r). h1[p := v] ! q = h1 ! q"
    using assms(1) f by (auto simp: pointersValid_def list_all_iff)
  then show ?thesis unfolding f(2) by (intro Mock_GetByID_frame) simp_all
qed

lemma List_copies_isolated:
  assumes "pointersValid (h, r)" and "Mock_List (h, r) = (ps, (h1, r1))" and "p \<in> set ps"
  shows "returned (Mock_GetByID uid (h1[p := v], r1)) = returned (Mock_GetByID uid (h1, r1))"
proof -
  from Mock_List_fresh [OF assms(2)] assms(3)
  have f: "length h \<le> p" "r1 = r" by auto
  have "\<forall>(k, q)\<in>set (users r). h1[p := v] ! q = h1 ! q"
    using assms(1) f by (auto simp: pointersValid_def list_all_iff)
  then show ?thesis unfolding f(2) by (intro Mock_GetByID_frame) simp_all
qed

subsection \<open>The pointer \<open>Create\<close> returns\<close>

text \<open>
  C1. A caller must not be able to change what the repository holds through a value the
  repository returned. \<open>Create\<close> returns \<open>&userCopy\<close>, the very pointer it has just put
  into \<open>users\<close> and \<open>emails\<close>: on the empty repository, \<open>Create\<close> of the user at address 0
  returns address 1, which is also what \<open>users\<close> holds for the identifier 1, and once the
  caller has written the name \<open>Mallory\<close> through it, \<open>GetByID(1)\<close> returns \<open>Mallory\<close>
  where it returned \<open>Ann\<close>.
\<close>

theorem Create_returns_stored_pointer:
  "Mock_Create 0 ([aliceStored\<lparr>User.ID := 0\<rparr>], NewMockUserRepository)
     = (Inr 1, ([aliceStored, aliceStored],
                \<lparr>users = [(1, 1)], emails = [(''a@x.com'', 1)], nextID = 2\<rparr>))
   \<and> returned (Mock_GetByID 1 ([aliceStored, aliceStored],
                \<lparr>users = [(1, 1)], emails = [(''a@x.com'', 1)], nextID = 2\<rparr>))
     = Inr aliceStored
   \<and> returned (Mock_GetByID 1 ([aliceStored, aliceStored][1 := aliceStored\<lparr>User.Name := ''Mallory''\<rparr>],
                \<lparr>users = [(1, 1)], emails = [(''a@x.com'', 1)], nextID = 2\<rparr>))
     = Inr (aliceStored\<lparr>User.Name := ''Mallory''\<rparr>)
   \<and> aliceStored\<lparr>User.Name := ''Mallory''\<rparr> \<noteq> aliceStored"
  by code_simp

section \<open>Properties of the use cases\<close>

subsection \<open>Create with an email that is present\<close>

text \<open>The repository's own \<open>Create\<close> refuses an email of the index and changes nothing.\<close>

lemma Mock_Create_duplicate:
  assumes "map_of (emails m) (User.Email (h ! user)) \<noteq> None"
  shows "Mock_Create user (h, m) = (Inl ErrStoreEmailUsed, (h, m))"
  using assms by (simp add: Mock_Create_def)





subsection \<open>Update and the check of the email\<close>

text \<open>
  The check is made exactly when the request's email is not, byte for byte, the email of
  the record fetched; when it reports the email as taken, the execution ends there, with
  no call of \<open>Update\<close>.
\<close>

lemma emailCheck_skipped:
  assumes "User.Email (mem \<sigma> ! user) = UpdateUserRequest.Email req"
  shows "emailCheck userRepo req user \<sigma> = (None, \<sigma>)"
  using assms by (simp add: emailCheck_def)

lemma emailCheck_made:
  assumes "User.Email (mem \<sigma> ! user) \<noteq> UpdateUserRequest.Email req"
  shows "calls (snd (emailCheck userRepo req user \<sigma>))
           = calls \<sigma> @ [CallIsEmailTaken (UpdateUserRequest.Email req)]"
  using assms
  by (simp add: emailCheck_def call_def logError_def split: prod.splits sum.splits)

lemma Update_email_taken:
  assumes "GetById userRepo (UpdateUserRequest.ID req) (mem \<sigma>, store \<sigma>) = (Inr user, (h1, s1))"
    and "User.Email (h1 ! user) \<noteq> UpdateUserRequest.Email req"
    and "isEmailTaken userRepo (UpdateUserRequest.Email req) (h1, s1) = (Inr True, (h2, s2))"
  shows "UpdateUser_Execute userRepo unicodeLower now req \<sigma>
     = (Inl ErrEmailAlreadyUsed,
        \<sigma>\<lparr>mem := h2, store := s2,
          calls := calls \<sigma> @ [CallGetById (UpdateUserRequest.ID req),
                              CallIsEmailTaken (UpdateUserRequest.Email req)],
          logged := logged \<sigma> @ [Info ''Updating user'']\<rparr>)"
  using assms by (simp add: UpdateUser_Execute_def emailCheck_def call_def logInfo_def)

text \<open>
  C4. A request whose email differs from the stored one in the case of letters only must
  not be refused as taken by the requester's own record. The user 1 of the repository
  has the email \<open>a@x.com\<close>; the request to update user 1 with the email \<open>A@X.com\<close>
  fails with \<open>cet email est deja utilise\<close>, where the same request with \<open>a@x.com\<close>
  succeeds.
\<close>

theorem Update_own_email_other_case_refused:
  "fst (UpdateUser_Execute sampleRepository (\<lambda>s. s) 7
          \<lparr>UpdateUserRequest.ID = 1, UpdateUserRequest.Email = ''A@X.com'',
           UpdateUserRequest.Name = ''Ann''\<rparr> aliceExec)
     = Inl ErrEmailAlreadyUsed
   \<and> fst (UpdateUser_Execute sampleRepository (\<lambda>s. s) 7
          \<lparr>UpdateUserRequest.ID = 1, UpdateUserRequest.Email = ''a@x.com'',
           UpdateUserRequest.Name = ''Ann''\<rparr> aliceExec)
     = Inr \<lparr>UpdateUserResponse.ID = 1, UpdateUserResponse.Email = ''a@x.com'',
            UpdateUserResponse.Name = ''Ann'', UpdateUserResponse.Updated = 7\<rparr>"
  by code_simp

subsection \<open>List: the defaults, the offset and the number of pages\<close>

lemma wrap64_id: "isInt64 x \<Longrightarrow> wrap64 x = x"
  unfolding wrap64_def isInt64_def by (rule signed_take_bit_int_eq_self) simp_all

lemma wrap64_mult_left: "wrap64 (wrap64 a * b) = wrap64 (a * b)"
proof -
  have "signed_take_bit 63 (signed_take_bit 63 a * b)
          = signed_take_bit 63 (signed_take_bit 63 (signed_take_bit 63 a) * signed_take_bit 63 b)"
    by (simp only: signed_take_bit_mult)
  also have "\<dots> = signed_take_bit 63 (a * b)"
    by (simp add: signed_take_bit_mult)
  finally show ?thesis by (simp add: wrap64_def)
qed

lemma wrap64_diff_left: "wrap64 (wrap64 a - b) = wrap64 (a - b)"
proof -
  have "signed_take_bit 63 (signed_take_bit 63 a - b)
          = signed_take_bit 63 (signed_take_bit 63 (signed_take_bit 63 a) - signed_take_bit 63 b)"
    by (simp only: signed_take_bit_diff)
  also have "\<dots> = signed_take_bit 63 (a - b)"
    by (simp add: signed_take_bit_diff)
  finally show ?thesis by (simp add: wrap64_def)
qed

lemma offset64: "mul64 (sub64 page 1) pageSize = wrap64 ((page - 1) * pageSize)"
  by (simp add: mul64_def sub64_def wrap64_mult_left)

lemma neg_div_ceil:
  fixes t p :: int
  assumes "0 < p"
  shows "- (- t div p) = (t + p - 1) div p"
proof -
  define q r where "q = (t + p - 1) div p" and "r = (t + p - 1) mod p"
  have r: "0 \<le> r" "r < p" using assms by (simp_all add: r_def)
  have "t + p - 1 = p * q + r" by (simp add: q_def r_def)
  then have "- t = p * (- q) + (p - 1 - r)" by (simp add: algebra_simps)
  moreover have "0 \<le> p - 1 - r" "p - 1 - r < p" using r by simp_all
  ultimately have "- t div p = - q" by (rule int_div_pos_eq)
  then show ?thesis by (simp add: q_def)
qed

lemma sdiv_nonneg: "0 \<le> (a::int) \<Longrightarrow> 0 < b \<Longrightarrow> a sdiv b = a div b"
  by (cases "a = 0") (simp_all add: signed_divide_int_def)

lemma totalPages_ceiling:
  assumes "0 < p" and "0 < t + p" and "t + p \<le> 2 ^ 63"
  shows "div64 (sub64 (add64 t p) 1) p = \<lceil>real_of_int t / real_of_int p\<rceil>"
proof -
  have nonneg: "0 \<le> t + p - 1" using assms by simp
  have "sub64 (add64 t p) 1 = wrap64 (t + p - 1)"
    by (simp add: sub64_def add64_def wrap64_diff_left)
  also have "\<dots> = t + p - 1"
    using assms nonneg by (intro wrap64_id) (simp add: isInt64_def)
  finally have b: "sub64 (add64 t p) 1 = t + p - 1" .
  have c: "(t + p - 1) sdiv p = (t + p - 1) div p"
    using nonneg assms(1) by (rule sdiv_nonneg)
  have "0 \<le> (t + p - 1) div p" using nonneg assms(1) by (simp add: pos_imp_zdiv_nonneg_iff)
  moreover have "(t + p - 1) div p \<le> t + p - 1"
    using zdiv_mono2 [of "t + p - 1" 1 p] nonneg assms(1) by simp
  ultimately have d: "div64 (t + p - 1) p = (t + p - 1) div p"
    unfolding div64_def c using assms by (intro wrap64_id) (simp add: isInt64_def)
  show ?thesis
    unfolding b d using neg_div_ceil [OF assms(1), of t] by (simp add: ceiling_divide_eq_div)
qed

lemma ListUsers_unfold:
  "ListUsers_Execute userRepo req \<sigma> =
     (let page = pageOrDefault req; pageSize = pageSizeOrDefault req;
          offset = wrap64 ((page - 1) * pageSize)
      in case List userRepo pageSize offset (mem \<sigma>, store \<sigma>) of
           (Inl err, (h1, s1)) \<Rightarrow>
             (Inl ErrListFailed,
              \<sigma>\<lparr>mem := h1, store := s1, calls := calls \<sigma> @ [CallList pageSize offset],
                logged := logged \<sigma> @ [Error ''Failed to list users'' err]\<rparr>)
         | (Inr found, (h1, s1)) \<Rightarrow>
             (case Count userRepo (h1, s1) of
                (Inl err, (h2, s2)) \<Rightarrow>
                  (Inl ErrCountFailed,
                   \<sigma>\<lparr>mem := h2, store := s2,
                     calls := calls \<sigma> @ [CallList pageSize offset, CallCount],
                     logged := logged \<sigma> @ [Error ''Failed to count users'' err]\<rparr>)
              | (Inr totalCount, (h2, s2)) \<Rightarrow>
                  (Inr \<lparr>ListUsersResponse.Users = map (\<lambda>user. asGetUserResponse (h2 ! user)) found,
                        ListUsersResponse.Total = totalCount,
                        ListUsersResponse.Page = page,
                        ListUsersResponse.PageSize = pageSize,
                        ListUsersResponse.TotalPages = div64 (sub64 (add64 totalCount pageSize) 1) pageSize\<rparr>,
                   \<sigma>\<lparr>mem := h2, store := s2,
                     calls := calls \<sigma> @ [CallList pageSize offset, CallCount]\<rparr>)))"
  unfolding offset64 [symmetric]
  by (simp add: ListUsers_Execute_def pageOrDefault_def pageSizeOrDefault_def call_def logError_def
      asGetUserResponse_def Let_def split: prod.splits sum.splits)

text \<open>
  C5, as the code has it. For every request: page 0 is replaced by 1 and page size 0 by
  10; the first call on the repository is \<open>List\<close> with the page size as limit and, as
  offset, \<open>(page - 1) * pageSize\<close> reduced to the 64-bit range, which is the product itself
  whenever the product is a value of \<open>int\<close>; the only other call is \<open>Count\<close>; and in a
  response \<open>Total\<close> is what \<open>Count\<close> returned. \<open>TotalPages\<close> is \<open>Total / PageSize\<close> rounded
  up when the page size is not negative, \<open>Total + PageSize\<close> is positive (as it is for every
  count that is not negative) and \<open>Total + PageSize - 1\<close> is a value of \<open>int\<close>.
\<close>

theorem ListUsers_paging:
  assumes "out = ListUsers_Execute userRepo req \<sigma>"
  shows "(calls (snd out) = calls \<sigma> @ [CallList (pageSizeOrDefault req)
                                          (wrap64 ((pageOrDefault req - 1) * pageSizeOrDefault req))]
          \<or> calls (snd out) = calls \<sigma> @ [CallList (pageSizeOrDefault req)
                                          (wrap64 ((pageOrDefault req - 1) * pageSizeOrDefault req)),
                                        CallCount])
         \<and> (isInt64 ((pageOrDefault req - 1) * pageSizeOrDefault req)
             \<longrightarrow> wrap64 ((pageOrDefault req - 1) * pageSizeOrDefault req)
                   = (pageOrDefault req - 1) * pageSizeOrDefault req)
         \<and> (fst out = Inr resp \<longrightarrow>
               ListUsersResponse.Page resp = pageOrDefault req
               \<and> ListUsersResponse.PageSize resp = pageSizeOrDefault req
               \<and> (\<exists>found w1 w2.
                     List userRepo (pageSizeOrDefault req)
                       (wrap64 ((pageOrDefault req - 1) * pageSizeOrDefault req)) (mem \<sigma>, store \<sigma>)
                       = (Inr found, w1)
                     \<and> Count userRepo w1 = (Inr (ListUsersResponse.Total resp), w2))
               \<and> (0 \<le> ListUsersRequest.PageSize req
                    \<and> 0 < ListUsersResponse.Total resp + ListUsersResponse.PageSize resp
                    \<and> ListUsersResponse.Total resp + ListUsersResponse.PageSize resp \<le> 2 ^ 63
                  \<longrightarrow> ListUsersResponse.TotalPages resp
                        = \<lceil>real_of_int (ListUsersResponse.Total resp)
                             / real_of_int (ListUsersResponse.PageSize resp)\<rceil>))"
proof -
  have ps: "0 \<le> ListUsersRequest.PageSize req \<Longrightarrow> 0 < pageSizeOrDefault req"
    by (simp add: pageSizeOrDefault_def)
  show ?thesis
    unfolding assms ListUsers_unfold Let_def
    using ps by (auto split: prod.splits sum.splits simp: totalPages_ceiling wrap64_id)
qed

theorem ListUsers_paging_witness:
  "0 \<le> ListUsersRequest.PageSize \<lparr>ListUsersRequest.Page = 0, ListUsersRequest.PageSize = 0\<rparr>
   \<and> isInt64 ((pageOrDefault \<lparr>ListUsersRequest.Page = 0, ListUsersRequest.PageSize = 0\<rparr> - 1)
               * pageSizeOrDefault \<lparr>ListUsersRequest.Page = 0, ListUsersRequest.PageSize = 0\<rparr>)
   \<and> fst (ListUsers_Execute sampleRepository
            \<lparr>ListUsersRequest.Page = 0, ListUsersRequest.PageSize = 0\<rparr> aliceExec)
       = Inr \<lparr>ListUsersResponse.Users = [asGetUserResponse aliceStored],
              ListUsersResponse.Total = 1, ListUsersResponse.Page = 1,
              ListUsersResponse.PageSize = 10, ListUsersResponse.TotalPages = 1\<rparr>
   \<and> calls (snd (ListUsers_Execute sampleRepository
            \<lparr>ListUsersRequest.Page = 0, ListUsersRequest.PageSize = 0\<rparr> aliceExec))
       = [CallList 10 0, CallCount]
   \<and> (0::int) < 1 + 10 \<and> (1::int) + 10 \<le> 2 ^ 63
   \<and> (1::int) = \<lceil>real_of_int 1 / real_of_int 10\<rceil>"
proof -
  let ?req = "\<lparr>ListUsersRequest.Page = 0, ListUsersRequest.PageSize = 0\<rparr>"
  let ?resp = "\<lparr>ListUsersResponse.Users = [asGetUserResponse aliceStored],
              ListUsersResponse.Total = 1, ListUsersResponse.Page = 1,
              ListUsersResponse.PageSize = 10, ListUsersResponse.TotalPages = 1\<rparr>"
  have 1: "0 \<le> ListUsersRequest.PageSize ?req" by simp
  have 2: "isInt64 ((pageOrDefault ?req - 1) * pageSizeOrDefault ?req)"
    by (simp add: pageOrDefault_def isInt64_def)
  have run: "fst (ListUsers_Execute sampleRepository ?req aliceExec) = Inr ?resp"
    by code_simp
  have tr: "calls (snd (ListUsers_Execute sampleRepository ?req aliceExec)) = [CallList 10 0, CallCount]"
    by code_simp
  from ListUsers_paging [OF refl, of sampleRepository ?req aliceExec ?resp] 1 2 run tr
  show ?thesis by simp
qed

text \<open>
  C5 as the specification states it, for every request, fails in four ways, each with one
  live record in the repository unless the count is given. With the page size \<open>-1\<close> the
  response has \<open>TotalPages = 1\<close>, and \<open>1 / (-1)\<close> rounded up is \<open>-1\<close>. With the page
  \<open>2^62 + 1\<close> and the page size 4 the offset passed to \<open>List\<close> is 0, and
  \<open>(page - 1) * pageSize\<close> is \<open>2^64\<close>. With a count of 2 and the page size \<open>2^63 - 1\<close> the
  sum wraps around and \<open>TotalPages\<close> is \<open>-1\<close>, where the quotient rounded up is 1. With a
  repository whose \<open>Count\<close> returns \<open>-15\<close> and the page size 10 \<open>TotalPages\<close> is 0, where
  \<open>-15 / 10\<close> rounded up is \<open>-1\<close>.
\<close>

theorem ListUsers_paging_fails:
  "fst (ListUsers_Execute sampleRepository
          \<lparr>ListUsersRequest.Page = 1, ListUsersRequest.PageSize = - 1\<rparr> aliceExec)
     = Inr \<lparr>ListUsersResponse.Users = [asGetUserResponse aliceStored],
            ListUsersResponse.Total = 1, ListUsersResponse.Page = 1,
            ListUsersResponse.PageSize = - 1, ListUsersResponse.TotalPages = 1\<rparr>
   \<and> \<lceil>real_of_int 1 / real_of_int (- 1)\<rceil> \<noteq> (1::int)
   \<and> calls (snd (ListUsers_Execute sampleRepository
          \<lparr>ListUsersRequest.Page = 4611686018427387905, ListUsersRequest.PageSize = 4\<rparr> aliceExec))
     = [CallList 4 0, CallCount]
   \<and> (4611686018427387905 - 1) * 4 \<noteq> (0::int)
   \<and> fst (ListUsers_Execute (sampleRepository\<lparr>Count := counted 2\<rparr>)
          \<lparr>ListUsersRequest.Page = 1, ListUsersRequest.PageSize = 9223372036854775807\<rparr> aliceExec)
     = Inr \<lparr>ListUsersResponse.Users = [asGetUserResponse aliceStored],
            ListUsersResponse.Total = 2, ListUsersResponse.Page = 1,
            ListUsersResponse.PageSize = 9223372036854775807, ListUsersResponse.TotalPages = - 1\<rparr>
   \<and> \<lceil>real_of_int 2 / real_of_int 9223372036854775807\<rceil> \<noteq> (- 1::int)
   \<and> fst (ListUsers_Execute (sampleRepository\<lparr>Count := counted (- 15)\<rparr>)
          \<lparr>ListUsersRequest.Page = 1, ListUsersRequest.PageSize = 10\<rparr> aliceExec)
     = Inr \<lparr>ListUsersResponse.Users = [asGetUserResponse aliceStored],
            ListUsersResponse.Total = - 15, ListUsersResponse.Page = 1,
            ListUsersResponse.PageSize = 10, ListUsersResponse.TotalPages = 0\<rparr>
   \<and> \<lceil>real_of_int (- 15) / real_of_int 10\<rceil> \<noteq> (0::int)"
proof -
  have 1: "fst (ListUsers_Execute sampleRepository
          \<lparr>ListUsersRequest.Page = 1, ListUsersRequest.PageSize = - 1\<rparr> aliceExec)
     = Inr \<lparr>ListUsersResponse.Users = [asGetUserResponse aliceStored],
            ListUsersResponse.Total = 1, ListUsersResponse.Page = 1,
            ListUsersResponse.PageSize = - 1, ListUsersResponse.TotalPages = 1\<rparr>"
    by code_simp
  have 2: "\<lceil>real_of_int 1 / real_of_int (- 1)\<rceil> = (- 1::int)"
    unfolding ceiling_divide_eq_div by simp
  have 3: "calls (snd (ListUsers_Execute sampleRepository
          \<lparr>ListUsersRequest.Page = 4611686018427387905, ListUsersRequest.PageSize = 4\<rparr> aliceExec))
     = [CallList 4 0, CallCount]"
    by code_simp
  have 4: "fst (ListUsers_Execute (sampleRepository\<lparr>Count := counted 2\<rparr>)
          \<lparr>ListUsersRequest.Page = 1, ListUsersRequest.PageSize = 9223372036854775807\<rparr> aliceExec)
     = Inr \<lparr>ListUsersResponse.Users = [asGetUserResponse aliceStored],
            ListUsersResponse.Total = 2, ListUsersResponse.Page = 1,
            ListUsersResponse.PageSize = 9223372036854775807, ListUsersResponse.TotalPages = - 1\<rparr>"
    by code_simp
  have 5: "\<lceil>real_of_int 2 / real_of_int 9223372036854775807\<rceil> = (1::int)"
    unfolding ceiling_divide_eq_div by simp
  have 6: "fst (ListUsers_Execute (sampleRepository\<lparr>Count := counted (- 15)\<rparr>)
          \<lparr>ListUsersRequest.Page = 1, ListUsersRequest.PageSize = 10\<rparr> aliceExec)
     = Inr \<lparr>ListUsersResponse.Users = [asGetUserResponse aliceStored],
            ListUsersResponse.Total = - 15, ListUsersResponse.Page = 1,
            ListUsersResponse.PageSize = 10, ListUsersResponse.TotalPages = 0\<rparr>"
    by code_simp
  have 7: "\<lceil>real_of_int (- 15) / real_of_int 10\<rceil> = (- 1::int)"
    unfolding ceiling_divide_eq_div by simp
  show ?thesis
    unfolding 2 5 7 using 1 3 4 6 by (simp only:) simp
qed

subsection \<open>Create and the welcome email\<close>

lemma CreateUser_commit:
  assumes "isEmailTaken userRepo (CreateUserRequest.Email req) (mem \<sigma>, store \<sigma>) = (Inr False, (h1, s1))"
    and "NewUser unicodeLower now (CreateUserRequest.Email req) (CreateUserRequest.Name req)
           (CreateUserRequest.Password req) = Inr u"
    and "hash (User.Password u) = Inr hashedPassword"
    and "Create userRepo (length h1) (h1 @ [u\<lparr>User.Password := hashedPassword\<rparr>], s1)
           = (Inr createdUser, (h2, s2))"
  shows "CreateUser_Execute userRepo hash sendWelcomeEmail unicodeLower now req \<sigma>
     = (Inr (asCreateUserResponse (h2 ! createdUser)),
        \<sigma>\<lparr>mem := h2, store := s2,
          calls := calls \<sigma> @ [CallIsEmailTaken (CreateUserRequest.Email req), CallCreate (length h1)],
          logged := logged \<sigma> @ [Info ''Creating new user'', Info ''User created successfully''],
          detached := detached \<sigma> @
            (case sendWelcomeEmail (User.Email (h2 ! createdUser)) (User.Name (h2 ! createdUser)) of
               Some err \<Rightarrow> [Error ''Failed to send welcome email'' err]
             | None \<Rightarrow> [])\<rparr>)"
  using assms
  by (simp add: CreateUser_Execute_def call_def logInfo_def new_def Let_def asCreateUserResponse_def)

text \<open>
  C6. When the email is free, the entity is valid, the password hashes and the
  repository's \<open>Create\<close> succeeds, the use case returns the response built from the
  created user, whatever \<open>SendWelcomeEmail\<close> does: the result is the one obtained with
  any other sender, and an error of the sender shows only in what the goroutine logs.
\<close>

theorem Create_ignores_notification:
  assumes "isEmailTaken userRepo (CreateUserRequest.Email req) (mem \<sigma>, store \<sigma>) = (Inr False, (h1, s1))"
    and "NewUser unicodeLower now (CreateUserRequest.Email req) (CreateUserRequest.Name req)
           (CreateUserRequest.Password req) = Inr u"
    and "hash (User.Password u) = Inr hashedPassword"
    and "Create userRepo (length h1) (h1 @ [u\<lparr>User.Password := hashedPassword\<rparr>], s1)
           = (Inr createdUser, (h2, s2))"
    and "out = CreateUser_Execute userRepo hash sendWelcomeEmail unicodeLower now req \<sigma>"
  shows "fst out = Inr (asCreateUserResponse (h2 ! createdUser))
         \<and> fst out = fst (CreateUser_Execute userRepo hash otherSender unicodeLower now req \<sigma>)
         \<and> logged (snd out) = logged \<sigma> @ [Info ''Creating new user'', Info ''User created successfully'']
         \<and> detached (snd out) = detached \<sigma> @
             (case sendWelcomeEmail (User.Email (h2 ! createdUser)) (User.Name (h2 ! createdUser)) of
                Some err \<Rightarrow> [Error ''Failed to send welcome email'' err]
              | None \<Rightarrow> [])"
proof -
  have run: "CreateUser_Execute userRepo hash sender unicodeLower now req \<sigma>
     = (Inr (asCreateUserResponse (h2 ! createdUser)),
        \<sigma>\<lparr>mem := h2, store := s2,
          calls := calls \<sigma> @ [CallIsEmailTaken (CreateUserRequest.Email req), CallCreate (length h1)],
          logged := logged \<sigma> @ [Info ''Creating new user'', Info ''User created successfully''],
          detached := detached \<sigma> @
            (case sender (User.Email (h2 ! createdUser)) (User.Name (h2 ! createdUser)) of
               Some err \<Rightarrow> [Error ''Failed to send welcome email'' err]
             | None \<Rightarrow> [])\<rparr>)" for sender
    using assms(1-4) by (rule CreateUser_commit)
  show ?thesis unfolding assms(5) run by simp
qed

theorem Create_ignores_notification_witness:
  "isEmailTaken sampleRepository ''a@x.com'' (mem emptyExec, store emptyExec)
     = (Inr False, ([], NewMockUserRepository))
   \<and> failingSender ''a@x.com'' ''Ann'' = Some (ErrExternal ''smtp down'')
   \<and> fst (CreateUser_Execute sampleRepository sampleHash failingSender (\<lambda>s. s) 5
            \<lparr>CreateUserRequest.Email = ''a@x.com'', CreateUserRequest.Name = ''Ann'',
             CreateUserRequest.Password = ''secret1''\<rparr> emptyExec)
       = Inr \<lparr>CreateUserResponse.ID = 1, CreateUserResponse.Email = ''a@x.com'',
              CreateUserResponse.Name = ''Ann'', CreateUserResponse.Created = 5\<rparr>
   \<and> detached (snd (CreateUser_Execute sampleRepository sampleHash failingSender (\<lambda>s. s) 5
            \<lparr>CreateUserRequest.Email = ''a@x.com'', CreateUserRequest.Name = ''Ann'',
             CreateUserRequest.Password = ''secret1''\<rparr> emptyExec))
       = [Error ''Failed to send welcome email'' (ErrExternal ''smtp down'')]"
proof -
  let ?req = "\<lparr>CreateUserRequest.Email = ''a@x.com'', CreateUserRequest.Name = ''Ann'',
               CreateUserRequest.Password = ''secret1''\<rparr>"
  let ?u = "\<lparr>User.ID = 0, User.Email = ''a@x.com'', User.Name = ''Ann'', User.Password = ''secret1'',
            User.Created = 5, User.Updated = 5\<rparr>"
  have 1: "isEmailTaken sampleRepository (CreateUserRequest.Email ?req) (mem emptyExec, store emptyExec)
             = (Inr False, ([], NewMockUserRepository))"
    by code_simp
  have 2: "NewUser (\<lambda>s. s) 5 (CreateUserRequest.Email ?req) (CreateUserRequest.Name ?req)
             (CreateUserRequest.Password ?req) = Inr ?u"
    by code_simp
  have 3: "sampleHash (User.Password ?u) = Inr ''#secret1''"
    by code_simp
  have 4: "Create sampleRepository (length []) ([] @ [?u\<lparr>User.Password := ''#secret1''\<rparr>], NewMockUserRepository)
             = (Inr 1, ([aliceStored, aliceStored],
                        \<lparr>users = [(1, 1)], emails = [(''a@x.com'', 1)], nextID = 2\<rparr>))"
    by code_simp
  have 5: "failingSender ''a@x.com'' ''Ann'' = Some (ErrExternal ''smtp down'')"
    by code_simp
  from Create_ignores_notification [of sampleRepository ?req emptyExec "[]" NewMockUserRepository
      "\<lambda>s. s" 5 ?u sampleHash "''#secret1''" 1 "[aliceStored, aliceStored]"
      "\<lparr>users = [(1, 1)], emails = [(''a@x.com'', 1)], nextID = 2\<rparr>" _ failingSender,
      OF 1 2 3 4 refl] 1 5
  show ?thesis by (simp add: aliceStored_def asCreateUserResponse_def emptyExec_def)
qed

subsection \<open>What the responses are made of\<close>








end
